theory Spec2Isabelle
  imports Main
begin

section \<open>JavaScript values, strings and the Map container\<close>

text \<open>
  The bridge service is one JavaScript file (\<open>src/index.js\<close>). Its strings are modelled
  as \<open>string\<close>, read as the UTF-8 bytes of the JavaScript string, so that the fixed Chinese
  replies of the source can be written down byte for byte. Equality, concatenation,
  \<open>includes\<close> and the replacement of the ASCII double quote behave on the UTF-8 bytes of
  well-formed text as they do on its UTF-16 code units.
\<close>

datatype js_error = TypeError | Thrown string

text \<open>
  A parsed JSON value, or \<open>undefined\<close> (a missing property or header). Numbers are kept
  as integers: the program only tests them for truthiness and renders them in a template
  literal, and the rendering below is the JavaScript one for integers below \<open>10^21\<close>.
  An object is the association list of its own properties.
\<close>

datatype jsval =
    JUndefined
  | JNull
  | JBool bool
  | JNum int
  | JStr string
  | JArr "jsval list"
  | JObj "(string \<times> jsval) list"

fun truthy :: "jsval \<Rightarrow> bool" where
  "truthy JUndefined = False"
| "truthy JNull = False"
| "truthy (JBool b) = b"
| "truthy (JNum n) = (n \<noteq> 0)"
| "truthy (JStr s) = (s \<noteq> [])"
| "truthy (JArr xs) = True"
| "truthy (JObj kvs) = True"

text \<open>
  Property read \<open>v.k\<close>. Reading a property of \<open>undefined\<close> or \<open>null\<close> throws a
  TypeError. The names the program reads (\<open>text\<close>, \<open>content\<close>, \<open>senderStaffId\<close>,
  \<open>senderId\<close>, \<open>id\<close>, \<open>conversationId\<close>, \<open>conversationType\<close>, \<open>header\<close>, \<open>body\<close>)
  are defined on no primitive wrapper, array or prototype, so they are \<open>undefined\<close> on
  everything but an object that owns them.
\<close>

fun get_prop :: "jsval \<Rightarrow> string \<Rightarrow> js_error + jsval" where
  "get_prop JUndefined k = Inl TypeError"
| "get_prop JNull k = Inl TypeError"
| "get_prop (JObj kvs) k = Inr (case map_of kvs k of None \<Rightarrow> JUndefined | Some v \<Rightarrow> v)"
| "get_prop v k = Inr JUndefined"

text \<open>Optional chaining \<open>v?.k\<close>: \<open>undefined\<close> when \<open>v\<close> is \<open>undefined\<close> or \<open>null\<close>.\<close>

fun get_opt :: "jsval \<Rightarrow> string \<Rightarrow> jsval" where
  "get_opt (JObj kvs) k = (case map_of kvs k of None \<Rightarrow> JUndefined | Some v \<Rightarrow> v)"
| "get_opt v k = JUndefined"

subsection \<open>String operations\<close>

fun starts_with :: "string \<Rightarrow> string \<Rightarrow> bool" where
  "starts_with [] s = True"
| "starts_with (p # ps) [] = False"
| "starts_with (p # ps) (c # cs) = (p = c \<and> starts_with ps cs)"

text \<open>\<open>s.includes(needle)\<close>.\<close>

fun includes_str :: "string \<Rightarrow> string \<Rightarrow> bool" where
  "includes_str [] needle = (needle = [])"
| "includes_str (c # cs) needle = (starts_with needle (c # cs) \<or> includes_str cs needle)"

text \<open>
  The white space and line terminators that \<open>String.prototype.trim\<close> strips, as UTF-8:
  TAB, LF, VT, FF, CR, SPACE, U+00A0, U+1680, U+2000..U+200A, U+2028, U+2029, U+202F,
  U+205F, U+3000 and U+FEFF.
\<close>

definition js_whitespace :: "string list" where
  "js_whitespace =
    [[CHR 0x09], [CHR 0x0A], [CHR 0x0B], [CHR 0x0C], [CHR 0x0D], [CHR 0x20],
     [CHR 0xC2, CHR 0xA0],
     [CHR 0xE1, CHR 0x9A, CHR 0x80],
     [CHR 0xE2, CHR 0x80, CHR 0x80], [CHR 0xE2, CHR 0x80, CHR 0x81],
     [CHR 0xE2, CHR 0x80, CHR 0x82], [CHR 0xE2, CHR 0x80, CHR 0x83],
     [CHR 0xE2, CHR 0x80, CHR 0x84], [CHR 0xE2, CHR 0x80, CHR 0x85],
     [CHR 0xE2, CHR 0x80, CHR 0x86], [CHR 0xE2, CHR 0x80, CHR 0x87],
     [CHR 0xE2, CHR 0x80, CHR 0x88], [CHR 0xE2, CHR 0x80, CHR 0x89],
     [CHR 0xE2, CHR 0x80, CHR 0x8A],
     [CHR 0xE2, CHR 0x80, CHR 0xA8], [CHR 0xE2, CHR 0x80, CHR 0xA9],
     [CHR 0xE2, CHR 0x80, CHR 0xAF],
     [CHR 0xE2, CHR 0x81, CHR 0x9F],
     [CHR 0xE3, CHR 0x80, CHR 0x80],
     [CHR 0xEF, CHR 0xBB, CHR 0xBF]]"

text \<open>Strip, from the front of \<open>s\<close>, every leading occurrence of one of the sequences \<open>ws\<close>.\<close>

function strip_leading :: "string list \<Rightarrow> string \<Rightarrow> string" where
  "strip_leading ws s =
     (case find (\<lambda>w. w \<noteq> [] \<and> starts_with w s) ws of
        None \<Rightarrow> s
      | Some w \<Rightarrow> strip_leading ws (drop (length w) s))"
  by pat_completeness auto

termination strip_leading
proof (relation "measure (\<lambda>(ws, s). length s)")
  show "wf (measure (\<lambda>(ws, s). length s))" by simp
next
  fix ws :: "string list" and s w :: string
  assume found: "find (\<lambda>w. w \<noteq> [] \<and> starts_with w s) ws = Some w"
  have shorter: "starts_with p t \<Longrightarrow> length p \<le> length t" for p t
    by (induction p t rule: starts_with.induct) auto
  from found have "w \<noteq> []" and "starts_with w s"
    by (auto simp: find_Some_iff)
  then have "length s - length w < length s"
    using shorter [of w s] by (cases w) auto
  then show "((ws, drop (length w) s), (ws, s)) \<in> measure (\<lambda>(ws, s). length s)"
    by simp
qed

definition trimStart :: "string \<Rightarrow> string" where
  "trimStart s = strip_leading js_whitespace s"

definition trimEnd :: "string \<Rightarrow> string" where
  "trimEnd s = rev (strip_leading (map rev js_whitespace) (rev s))"

text \<open>\<open>s.trim()\<close>.\<close>

definition trim :: "string \<Rightarrow> string" where
  "trim s = trimEnd (trimStart s)"


text \<open>
  Conversion to a string, as a template literal performs it. An object parsed from JSON
  renders as \<open>[object Object]\<close> through \<open>Object.prototype.toString\<close>, unless it owns
  a property named \<open>toString\<close>: that property is not callable and \<open>valueOf\<close> returns
  the object itself, so the conversion throws a TypeError. An array renders its elements
  joined by commas, \<open>undefined\<close> and \<open>null\<close> elements as the empty string.
\<close>

function digits_of :: "nat \<Rightarrow> string" where
  "digits_of n =
     (if n < 10 then [char_of (48 + n)]
      else digits_of (n div 10) @ [char_of (48 + n mod 10)])"
  by pat_completeness auto
termination
  by (relation "measure (\<lambda>n. n)") auto

definition number_to_string :: "int \<Rightarrow> string" where
  "number_to_string i = (if i < 0 then ''-'' @ digits_of (nat (- i)) else digits_of (nat i))"

fun toString :: "jsval \<Rightarrow> js_error + string"
  and join_array :: "jsval list \<Rightarrow> js_error + string" where
  "toString JUndefined = Inr ''undefined''"
| "toString JNull = Inr ''null''"
| "toString (JBool b) = Inr (if b then ''true'' else ''false'')"
| "toString (JNum n) = Inr (number_to_string n)"
| "toString (JStr s) = Inr s"
| "toString (JArr xs) = join_array xs"
| "toString (JObj kvs) =
     (if ''toString'' \<in> fst ` set kvs then Inl TypeError else Inr ''[object Object]'')"
| "join_array [] = Inr []"
| "join_array (x # xs) =
     (case (case x of JUndefined \<Rightarrow> Inr [] | JNull \<Rightarrow> Inr [] | _ \<Rightarrow> toString x) of
        Inl e \<Rightarrow> Inl e
      | Inr s \<Rightarrow>
          (case join_array xs of
             Inl e \<Rightarrow> Inl e
           | Inr r \<Rightarrow> Inr (if xs = [] then s else s @ '','' @ r)))"

subsection \<open>The Map container\<close>

text \<open>
  A JavaScript \<open>Map\<close> with string keys, as the list of its entries in insertion order.
  \<open>set\<close> overwrites the value of a key that is present and appends a new key at the end;
  \<open>delete\<close> removes the key's entry.
\<close>

type_synonym 'v js_map = "(string \<times> 'v) list"

definition Map_has :: "string \<Rightarrow> 'v js_map \<Rightarrow> bool" where
  "Map_has k m = (k \<in> fst ` set m)"

definition Map_get :: "string \<Rightarrow> 'v js_map \<Rightarrow> 'v option" where
  "Map_get k m = map_of m k"

definition Map_set :: "string \<Rightarrow> 'v \<Rightarrow> 'v js_map \<Rightarrow> 'v js_map" where
  "Map_set k v m =
     (if Map_has k m then map (\<lambda>(k', v'). if k' = k then (k', v) else (k', v')) m
      else m @ [(k, v)])"

definition Map_delete :: "string \<Rightarrow> 'v js_map \<Rightarrow> 'v js_map" where
  "Map_delete k m = filter (\<lambda>(k', v'). k' \<noteq> k) m"

section \<open>Configuration\<close>

text \<open>A session entry: \<open>{ lastActivity: Date.now(), processing: true }\<close>. Times are
  milliseconds since the epoch, integers.\<close>

record session =
  lastActivity :: int
  processing :: bool

text \<open>The \<open>CONFIG\<close> object, the session store included.\<close>

record config =
  dingtalkSignKey :: string
  moltbotPath :: string
  dingtalkWebhookUrl :: string
  dingtalkKeyword :: string
  sessionTimeout :: int
  sessions :: "session js_map"

text \<open>The environment variables the configuration is read from; \<open>None\<close> is an unset one.\<close>

record environment =
  DINGTALK_SIGN_KEY :: "string option"
  MOLTBOT_PATH :: "string option"
  DINGTALK_WEBHOOK_URL :: "string option"
  DINGTALK_KEYWORD :: "string option"

text \<open>\<open>process.env.X || d\<close>: an unset or empty variable gives the default.\<close>

definition or_default :: "string option \<Rightarrow> string \<Rightarrow> string" where
  "or_default e d = (case e of None \<Rightarrow> d | Some s \<Rightarrow> if s = [] then d else s)"

definition CONFIG :: "environment \<Rightarrow> config" where
  "CONFIG env =
     \<lparr> dingtalkSignKey = or_default (DINGTALK_SIGN_KEY env) [],
       moltbotPath = or_default (MOLTBOT_PATH env) ''moltbot'',
       dingtalkWebhookUrl = or_default (DINGTALK_WEBHOOK_URL env) [],
       dingtalkKeyword = or_default (DINGTALK_KEYWORD env) ''Moltbot'',
       sessionTimeout = 5 * 60 * 1000,
       sessions = [] \<rparr>"

section \<open>Signature verification\<close>

text \<open>
  \<open>verifySignature(timestamp, sign, body)\<close>. The keyed hash of Node's \<open>crypto\<close> module is
  a parameter: \<open>hmac_sha256_base64 key data\<close> stands for
  \<open>crypto.createHmac('sha256', key).update(data).digest('base64')\<close>. The handler calls the
  function only with header values that are non-empty strings.
\<close>

definition verifySignature ::
  "(string \<Rightarrow> string \<Rightarrow> string) \<Rightarrow> config \<Rightarrow> string \<Rightarrow> string \<Rightarrow> jsval \<Rightarrow> bool" where
  "verifySignature hmac_sha256_base64 cfg timestamp sign body =
     (if dingtalkSignKey cfg = [] then True
      else
        (let stringToSign = timestamp @ [CHR 0x0A] @ dingtalkSignKey cfg;
             computedSign = hmac_sha256_base64 (dingtalkSignKey cfg) stringToSign
         in sign = computedSign))"

section \<open>Message parsing\<close>

record message =
  mtype :: string
  content :: string
  userId :: jsval
  chatId :: jsval
  isGroup :: bool

definition bindE :: "'e + 'a \<Rightarrow> ('a \<Rightarrow> 'e + 'b) \<Rightarrow> 'e + 'b" where
  "bindE r f = (case r of Inl e \<Rightarrow> Inl e | Inr x \<Rightarrow> f x)"

text \<open>
  \<open>parseDingtalkMessage(data)\<close>; \<open>Inr None\<close> is the returned \<open>null\<close>, \<open>Inl\<close> a thrown
  exception. \<open>data.text\<close> throws on \<open>undefined\<close> and \<open>null\<close>; \<open>content.trim()\<close> throws
  when the truthy \<open>content\<close> is not a string (no other JSON value has a callable
  \<open>trim\<close>).
\<close>

definition parseDingtalkMessage :: "jsval \<Rightarrow> js_error + message option" where
  "parseDingtalkMessage data =
     bindE (get_prop data ''text'') (\<lambda>text.
       if truthy (get_opt text ''content'') then
         bindE (case get_opt text ''content'' of JStr s \<Rightarrow> Inr (trim s) | _ \<Rightarrow> Inl TypeError)
           (\<lambda>trimmed.
         bindE (get_prop data ''senderStaffId'') (\<lambda>senderStaffId.
         bindE (if truthy senderStaffId then Inr senderStaffId
                else bindE (get_prop data ''senderId'') (\<lambda>senderId. Inr (get_opt senderId ''id'')))
           (\<lambda>uid.
         bindE (get_prop data ''conversationId'') (\<lambda>conversationId.
         bindE (get_prop data ''conversationType'') (\<lambda>conversationType.
           Inr (Some \<lparr> mtype = ''text'', content = trimmed, userId = uid,
                        chatId = conversationId,
                        isGroup = (conversationType = JStr ''group'') \<rparr>))))))
       else Inr None)"

text \<open>\<open>getSessionId(chatId, userId)\<close>: the template literal \<open>`${chatId}:${userId}`\<close>.\<close>

definition getSessionId :: "jsval \<Rightarrow> jsval \<Rightarrow> js_error + string" where
  "getSessionId cid uid =
     bindE (toString cid) (\<lambda>c. bindE (toString uid) (\<lambda>u. Inr (c @ '':'' @ u)))"


section \<open>Fixed texts\<close>

text \<open>The Chinese string literals of the source, as their UTF-8 bytes.\<close>

text \<open>The notice sent for a message whose session is already being processed (line 181).\<close>

definition msg_wait :: string where
  "msg_wait =
     [CHR 0xE8, CHR 0xAF, CHR 0xB7, CHR 0xE7, CHR 0xA8, CHR 0x8D, CHR 0xE5, CHR 0x80,
      CHR 0x99, CHR 0xEF, CHR 0xBC, CHR 0x8C, CHR 0xE6, CHR 0x88, CHR 0x91, CHR 0xE6,
      CHR 0xAD, CHR 0xA3, CHR 0xE5, CHR 0x9C, CHR 0xA8, CHR 0xE6, CHR 0x80, CHR 0x9D,
      CHR 0xE8, CHR 0x80, CHR 0x83, CHR 0x2E, CHR 0x2E, CHR 0x2E]"

text \<open>The placeholder reply for an agent that printed nothing (line 110).\<close>

definition msg_no_reply :: string where
  "msg_no_reply =
     [CHR 0xE6, CHR 0xB6, CHR 0x88, CHR 0xE6, CHR 0x81, CHR 0xAF, CHR 0xE5, CHR 0xB7,
      CHR 0xB2, CHR 0xE5, CHR 0x8F, CHR 0x91, CHR 0xE9, CHR 0x80, CHR 0x81, CHR 0xEF,
      CHR 0xBC, CHR 0x8C, CHR 0xE4, CHR 0xBD, CHR 0x86, CHR 0xE6, CHR 0x9C, CHR 0xAA,
      CHR 0xE6, CHR 0x94, CHR 0xB6, CHR 0xE5, CHR 0x88, CHR 0xB0, CHR 0xE5, CHR 0x9B,
      CHR 0x9E, CHR 0xE5, CHR 0xA4, CHR 0x8D]"

text \<open>The reply for an agent killed at its time limit (line 116).\<close>

definition msg_timeout :: string where
  "msg_timeout =
     [CHR 0xE5, CHR 0xA4, CHR 0x84, CHR 0xE7, CHR 0x90, CHR 0x86, CHR 0xE8, CHR 0xB6,
      CHR 0x85, CHR 0xE6, CHR 0x97, CHR 0xB6, CHR 0xEF, CHR 0xBC, CHR 0x8C, CHR 0xE8,
      CHR 0xAF, CHR 0xB7, CHR 0xE7, CHR 0xA8, CHR 0x8D, CHR 0xE5, CHR 0x90, CHR 0x8E,
      CHR 0xE5, CHR 0x86, CHR 0x8D, CHR 0xE8, CHR 0xAF, CHR 0x95]"

text \<open>The prefix of the reply for any other failure of the agent (line 119).\<close>

definition msg_failed_prefix :: string where
  "msg_failed_prefix =
     [CHR 0xE5, CHR 0xA4, CHR 0x84, CHR 0xE7, CHR 0x90, CHR 0x86, CHR 0xE5, CHR 0xA4,
      CHR 0xB1, CHR 0xE8, CHR 0xB4, CHR 0xA5, CHR 0x3A, CHR 0x20]"

text \<open>The apology sent from the catch block of the dispatch (line 199).\<close>

definition msg_apology :: string where
  "msg_apology =
     [CHR 0xE6, CHR 0x8A, CHR 0xB1, CHR 0xE6, CHR 0xAD, CHR 0x89, CHR 0xEF, CHR 0xBC,
      CHR 0x8C, CHR 0xE5, CHR 0xA4, CHR 0x84, CHR 0xE7, CHR 0x90, CHR 0x86, CHR 0xE6,
      CHR 0xB6, CHR 0x88, CHR 0xE6, CHR 0x81, CHR 0xAF, CHR 0xE6, CHR 0x97, CHR 0xB6,
      CHR 0xE5, CHR 0x87, CHR 0xBA, CHR 0xE9, CHR 0x94, CHR 0x99]"

text \<open>The error text of the 401 response (line 152).\<close>

definition err_signature :: string where
  "err_signature =
     [CHR 0xE7, CHR 0xAD, CHR 0xBE, CHR 0xE5, CHR 0x90, CHR 0x8D, CHR 0xE9, CHR 0xAA,
      CHR 0x8C, CHR 0xE8, CHR 0xAF, CHR 0x81, CHR 0xE5, CHR 0xA4, CHR 0xB1, CHR 0xE8,
      CHR 0xB4, CHR 0xA5]"

text \<open>The error text of the 500 response (line 207).\<close>

definition err_internal :: string where
  "err_internal =
     [CHR 0xE5, CHR 0x86, CHR 0x85, CHR 0xE9, CHR 0x83, CHR 0xA8, CHR 0xE9, CHR 0x94,
      CHR 0x99, CHR 0xE8, CHR 0xAF, CHR 0xAF]"

section \<open>The outside world\<close>

text \<open>
  What the service does to the outside: an HTTP POST of a text message to the DingTalk
  webhook (\<open>axios.post(webhookUrl, {msgtype: 'text', text: {content: message}})\<close>), the
  start of the agent's shell command (\<open>execAsync(command, {timeout: 130000})\<close>) and the
  HTTP response to the webhook caller (\<open>res.status(code).json({field: value})\<close>).
\<close>

datatype effect =
    HttpPost string string
  | Exec string
  | Respond nat string string

fun is_respond :: "effect \<Rightarrow> bool" where
  "is_respond (Respond code field v) = True"
| "is_respond e = False"

fun is_exec :: "effect \<Rightarrow> bool" where
  "is_exec (Exec cmd) = True"
| "is_exec e = False"

text \<open>
  How the agent's process ends: \<open>execAsync\<close> resolves with the two output streams, or
  rejects with an error whose \<open>killed\<close> flag Node sets when it killed the child at the
  time limit.
\<close>

datatype exec_outcome =
    Resolved string string
  | Rejected bool string

datatype post_outcome = PostOk | PostFailed string

section \<open>Sending to DingTalk\<close>

text \<open>
  \<open>sendToDingtalk(webhookUrl, message)\<close>: the effects and the returned boolean. Without
  a webhook URL nothing is sent; otherwise the POST is attempted and its failure is
  caught and turned into \<open>false\<close>.
\<close>

definition sendToDingtalk ::
  "(string \<Rightarrow> string \<Rightarrow> post_outcome) \<Rightarrow> string \<Rightarrow> string \<Rightarrow> effect list \<times> bool" where
  "sendToDingtalk post webhookUrl message =
     (if webhookUrl = [] then ([], False)
      else
        (case post webhookUrl message of
           PostOk \<Rightarrow> ([HttpPost webhookUrl message], True)
         | PostFailed err \<Rightarrow> ([HttpPost webhookUrl message], False)))"

section \<open>Calling the agent\<close>

text \<open>\<open>message.replace(/"/g, '\\"')\<close>: a backslash before every double quote.\<close>

definition escape_quotes :: "string \<Rightarrow> string" where
  "escape_quotes message =
     concat (map (\<lambda>c. if c = CHR 0x22 then [CHR 0x5C, CHR 0x22] else [c]) message)"

text \<open>The command string of line 98.\<close>

definition agent_command :: "config \<Rightarrow> string \<Rightarrow> string" where
  "agent_command cfg message =
     moltbotPath cfg @ '' agent --message '' @ [CHR 0x22] @ escape_quotes message
       @ [CHR 0x22] @ '' --timeout 120''"

text \<open>
  Lines 102 to 120: the reply \<open>sendToMoltbot\<close> returns for each way the process can
  end.
\<close>

definition agent_reply :: "exec_outcome \<Rightarrow> string" where
  "agent_reply outcome =
     (case outcome of
        Resolved stdout stderr \<Rightarrow>
          (let response = trim stdout
           in if response = [] \<and> stderr \<noteq> [] then trim stderr
              else if response \<noteq> [] then response else msg_no_reply)
      | Rejected killed err \<Rightarrow>
          (if killed then msg_timeout else msg_failed_prefix @ err))"

text \<open>\<open>sendToMoltbot(message, chatId)\<close>: the effects and the returned reply text.\<close>

definition sendToMoltbot ::
  "(string \<Rightarrow> exec_outcome) \<Rightarrow> config \<Rightarrow> string \<Rightarrow> jsval \<Rightarrow> effect list \<times> string" where
  "sendToMoltbot exec cfg message cid =
     ([Exec (agent_command cfg message)], agent_reply (exec (agent_command cfg message)))"

section \<open>The session registry\<close>

text \<open>
  \<open>cleanupSessions()\<close>, run every \<open>sessionTimeout\<close> milliseconds; \<open>now\<close> is the value
  of \<open>Date.now()\<close>. The loop visits the entries the map holds and deletes the visited
  entry when it is too old.
\<close>

definition cleanupSessions :: "int \<Rightarrow> config \<Rightarrow> config" where
  "cleanupSessions now cfg =
     cfg\<lparr>sessions :=
       fold (\<lambda>(id, session) m.
               if now - lastActivity session > sessionTimeout cfg then Map_delete id m else m)
            (sessions cfg) (sessions cfg)\<rparr>"

text \<open>
  Lines 179 to 189: the check for an entry and, when there is none, its creation. No
  \<open>await\<close> stands between the two, so they run as one step of the event loop. The
  boolean says whether the entry was created.
\<close>

definition tryAcquire :: "int \<Rightarrow> string \<Rightarrow> config \<Rightarrow> bool \<times> config" where
  "tryAcquire now sessionId cfg =
     (if Map_has sessionId (sessions cfg) then (False, cfg)
      else (True, cfg\<lparr>sessions :=
              Map_set sessionId \<lparr>lastActivity = now, processing = True\<rparr> (sessions cfg)\<rparr>))"

text \<open>Line 201, the \<open>finally\<close> block: \<open>CONFIG.sessions.delete(sessionId)\<close>.\<close>

definition release :: "string \<Rightarrow> config \<Rightarrow> config" where
  "release sessionId cfg = cfg\<lparr>sessions := Map_delete sessionId (sessions cfg)\<rparr>"

section \<open>The dispatch\<close>

text \<open>
  Lines 191 to 202, \<open>try { ... } catch { ... } finally { ... }\<close>. The two awaited calls
  are given by their results, a thrown exception included: \<open>agent\<close> is the result of
  \<open>sendToMoltbot\<close>, \<open>deliver text\<close> that of \<open>sendToDingtalk\<close> on \<open>text\<close>. Both
  functions catch their own exceptions, so the dispatch below only ever passes results
  that are no exceptions; the \<open>catch\<close> block is modelled all the same.
\<close>

definition acquired_branch ::
  "(js_error + effect list \<times> string) \<Rightarrow> (string \<Rightarrow> js_error + effect list \<times> bool) \<Rightarrow>
     string \<Rightarrow> config \<Rightarrow> effect list \<times> config" where
  "acquired_branch agent deliver sessionId cfg =
     (let on_error = (case deliver msg_apology of Inl err \<Rightarrow> [] | Inr (e3, ok) \<Rightarrow> e3);
          effs =
            (case agent of
               Inl err \<Rightarrow> on_error
             | Inr (e1, response) \<Rightarrow>
                 (case deliver response of
                    Inl err \<Rightarrow> e1 @ on_error
                  | Inr (e2, ok) \<Rightarrow> e1 @ e2))
      in (effs, release sessionId cfg))"

text \<open>
  Lines 174 to 203, the asynchronous function started after the acknowledgment, run to
  its end with nothing else touching the registry in between. \<open>post\<close> and \<open>exec\<close> say
  how each HTTP POST and each run of the agent ends, \<open>now\<close> is the value of
  \<open>Date.now()\<close>. An exception of \<open>getSessionId\<close> rejects the function's promise before
  anything is done.
\<close>

definition dispatch ::
  "(string \<Rightarrow> string \<Rightarrow> post_outcome) \<Rightarrow> (string \<Rightarrow> exec_outcome) \<Rightarrow> int \<Rightarrow> config \<Rightarrow> message \<Rightarrow>
     effect list \<times> config" where
  "dispatch post exec now cfg m =
     (case getSessionId (chatId m) (userId m) of
        Inl err \<Rightarrow> ([], cfg)
      | Inr sessionId \<Rightarrow>
          (case tryAcquire now sessionId cfg of
             (False, cfg') \<Rightarrow> (fst (sendToDingtalk post (dingtalkWebhookUrl cfg') msg_wait), cfg')
           | (True, cfg') \<Rightarrow>
               acquired_branch
                 (Inr (sendToMoltbot exec cfg' (content m) (chatId m)))
                 (\<lambda>text. Inr (sendToDingtalk post (dingtalkWebhookUrl cfg') text))
                 sessionId cfg'))"

section \<open>The webhook handler\<close>

record request =
  h_timestamp :: "string option"
  h_sign :: "string option"
  req_body :: jsval

text \<open>
  Lines 144 to 171, the body of the handler's \<open>try\<close> up to the acknowledgment: the
  response sent, and the message handed to the asynchronous function if there is one.
  The log line 168 renders \<open>message.userId\<close> in a template literal, which can throw.
\<close>

definition webhook_try ::
  "(string \<Rightarrow> string \<Rightarrow> string) \<Rightarrow> config \<Rightarrow> request \<Rightarrow> js_error + effect list \<times> message option" where
  "webhook_try hmac cfg req =
     bindE (get_prop (req_body req) ''body'') (\<lambda>body.
       if (case (h_timestamp req, h_sign req) of
             (Some timestamp, Some sign) \<Rightarrow>
               timestamp \<noteq> [] \<and> sign \<noteq> [] \<and> \<not> verifySignature hmac cfg timestamp sign body
           | _ \<Rightarrow> False)
       then Inr ([Respond 401 ''error'' err_signature], None)
       else
         bindE (parseDingtalkMessage body) (\<lambda>parsed.
           case parsed of
             None \<Rightarrow> Inr ([Respond 200 ''status'' ''ignored''], None)
           | Some m \<Rightarrow>
               if dingtalkKeyword cfg \<noteq> [] \<and> \<not> includes_str (content m) (dingtalkKeyword cfg)
               then Inr ([Respond 200 ''status'' ''keyword_mismatch''], None)
               else
                 bindE (toString (userId m)) (\<lambda>logged.
                   Inr ([Respond 200 ''status'' ''ok''], Some m))))"

text \<open>
  The handler of \<open>POST /webhook/dingtalk\<close>: its effects in the order they happen, and the
  configuration it leaves. An exception of the synchronous part is caught and answered
  with status 500; the asynchronous function never throws into the handler.
\<close>

definition webhook ::
  "(string \<Rightarrow> string \<Rightarrow> string) \<Rightarrow> (string \<Rightarrow> string \<Rightarrow> post_outcome) \<Rightarrow> (string \<Rightarrow> exec_outcome) \<Rightarrow>
     int \<Rightarrow> config \<Rightarrow> request \<Rightarrow> effect list \<times> config" where
  "webhook hmac post exec now cfg req =
     (case webhook_try hmac cfg req of
        Inl err \<Rightarrow> ([Respond 500 ''error'' err_internal], cfg)
      | Inr (effs, None) \<Rightarrow> (effs, cfg)
      | Inr (effs, Some m) \<Rightarrow>
          (case dispatch post exec now cfg m of (effs', cfg') \<Rightarrow> (effs @ effs', cfg')))"

text \<open>
  The steps of the event loop that touch the registry: the check-and-create at the start
  of a dispatch, the deletion in a \<open>finally\<close> block, and a run of the periodic clean-up.
  The dispatches of different messages interleave at their \<open>await\<close>s, so these steps
  come in any order.
\<close>

datatype registry_step =
    Acquire int string
  | Release string
  | Sweep int

fun apply_step :: "registry_step \<Rightarrow> config \<Rightarrow> config" where
  "apply_step (Acquire now sessionId) cfg = snd (tryAcquire now sessionId cfg)"
| "apply_step (Release sessionId) cfg = release sessionId cfg"
| "apply_step (Sweep now) cfg = cleanupSessions now cfg"

definition run_steps :: "registry_step list \<Rightarrow> config \<Rightarrow> config" where
  "run_steps steps cfg = fold apply_step steps cfg"

text \<open>The configurations the running service can hold: it starts with an empty registry.\<close>

inductive reachable :: "environment \<Rightarrow> config \<Rightarrow> bool" for env :: environment where
  initial: "reachable env (CONFIG env)"
| step: "reachable env cfg \<Longrightarrow> reachable env (apply_step st cfg)"

section \<open>The shell's reading of the command\<close>

text \<open>
  \<open>exec\<close> hands the command string to \<open>/bin/sh -c\<close>. \<open>sh_dquote_rest\<close> is the POSIX
  rule for a double-quoted word, given the text after the opening quote: the word ends at
  the first double quote that is not preceded by an escaping backslash, and the result is
  the text after it (\<open>None\<close> when the word never ends). Inside double quotes a backslash
  escapes a following \<open>$\<close>, backquote, double quote, backslash or newline and is an
  ordinary character before anything else; neither reading lets the character after it
  end the word. Command substitutions, which carry quotes of their own, are not modelled.
\<close>

fun sh_dquote_rest :: "string \<Rightarrow> string option" where
  "sh_dquote_rest [] = None"
| "sh_dquote_rest (c # cs) =
     (if c = CHR 0x22 then Some cs
      else if c = CHR 0x5C then (case cs of [] \<Rightarrow> None | d # ds \<Rightarrow> sh_dquote_rest ds)
      else sh_dquote_rest cs)"

text \<open>A chat message that holds the keyword, a backslash and a double quote.\<close>

definition attack_message :: string where
  "attack_message = ''Moltbot '' @ [CHR 0x5C, CHR 0x22] @ ''; touch /tmp/pwned; #''"

section \<open>Example data\<close>

text \<open>A configuration, a stand-in for the keyed hash, a message and a request, used to
  evaluate the functions on concrete inputs.\<close>

definition example_env :: environment where
  "example_env =
     \<lparr> DINGTALK_SIGN_KEY = Some ''abc'', MOLTBOT_PATH = None,
       DINGTALK_WEBHOOK_URL = Some ''https://oapi.example/robot/send'',
       DINGTALK_KEYWORD = None \<rparr>"

definition example_hmac :: "string \<Rightarrow> string \<Rightarrow> string" where
  "example_hmac key data = ''mac('' @ key @ '','' @ data @ '')''"


definition example_message :: message where
  "example_message =
     \<lparr> mtype = ''text'', content = ''Moltbot hi'', userId = JStr ''u1'',
       chatId = JStr ''c1'', isGroup = True \<rparr>"

definition example_body :: jsval where
  "example_body =
     JObj [(''text'', JObj [(''content'', JStr '' Moltbot hi '')]),
           (''senderStaffId'', JStr ''u1''),
           (''conversationId'', JStr ''c1''),
           (''conversationType'', JStr ''group'')]"

definition example_request :: request where
  "example_request =
     \<lparr> h_timestamp = None, h_sign = None, req_body = JObj [(''body'', example_body)] \<rparr>"




definition busy_config :: config where
  "busy_config =
     (CONFIG example_env)\<lparr>sessions := [(''c1:u1'', \<lparr>lastActivity = 1000, processing = True\<rparr>)]\<rparr>"

definition two_sessions :: config where
  "two_sessions =
     (CONFIG example_env)\<lparr>sessions :=
        [(''c1:u1'', \<lparr>lastActivity = 0, processing = True\<rparr>),
         (''c2:u2'', \<lparr>lastActivity = 300001, processing = True\<rparr>)]\<rparr>"

section \<open>Facts about the Map container and the registry\<close>

lemma Map_has_delete: "\<not> Map_has k (Map_delete k m)"
  by (auto simp: Map_has_def Map_delete_def)

lemma Map_has_set: "Map_has k' (Map_set k v m) = (k' = k \<or> Map_has k' m)"
  by (force simp: Map_has_def Map_set_def split: if_splits)

lemma Map_delete_absent: "\<not> Map_has k m \<Longrightarrow> Map_delete k m = m"
  by (induction m) (auto simp: Map_has_def Map_delete_def)

lemma Map_delete_set_absent: "\<not> Map_has k m \<Longrightarrow> Map_delete k (Map_set k v m) = m"
  using Map_delete_absent [of k m] by (simp add: Map_set_def) (simp add: Map_delete_def)

lemma keys_Map_set: "\<not> Map_has k m \<Longrightarrow> map fst (Map_set k v m) = map fst m @ [k]"
  by (simp add: Map_set_def)

lemma keys_Map_set_present: "Map_has k m \<Longrightarrow> map fst (Map_set k v m) = map fst m"
  by (induction m) (auto simp: Map_set_def Map_has_def)

lemma distinct_Map_set: "distinct (map fst m) \<Longrightarrow> distinct (map fst (Map_set k v m))"
  by (cases "Map_has k m") (auto simp: keys_Map_set keys_Map_set_present Map_has_def)

lemma distinct_Map_delete: "distinct (map fst m) \<Longrightarrow> distinct (map fst (Map_delete k m))"
  by (simp add: Map_delete_def distinct_map_filter)

lemma distinct_unique:
  "distinct (map fst xs) \<Longrightarrow> (k, a) \<in> set xs \<Longrightarrow> (k, b) \<in> set xs \<Longrightarrow> a = b"
  by (induction xs) (auto simp: image_iff)

lemma distinct_count:
  "distinct (map fst xs) \<Longrightarrow> length (filter (\<lambda>(k', v). k' = k) xs) \<le> 1"
  by (induction xs) (auto simp: filter_empty_conv image_iff)

text \<open>The clean-up loop is a filter: it drops the keys of the entries that are too old.\<close>

lemma fold_delete_filter:
  "fold (\<lambda>(id, s) m. if P s then Map_delete id m else m) xs m =
     filter (\<lambda>(k, v). \<not> (\<exists>s. (k, s) \<in> set xs \<and> P s)) m"
proof (induction xs arbitrary: m)
  case Nil
  then show ?case by simp
next
  case (Cons x xs)
  obtain id s where x: "x = (id, s)" by (cases x)
  show ?case
    by (auto simp: x Cons.IH Map_delete_def intro!: filter_cong)
qed

lemma sessions_cleanup:
  "sessions (cleanupSessions now cfg) =
     filter (\<lambda>(k, v). \<not> (\<exists>s. (k, s) \<in> set (sessions cfg) \<and>
                              now - lastActivity s > sessionTimeout cfg))
       (sessions cfg)"
  by (simp add: cleanupSessions_def fold_delete_filter)

lemma distinct_cleanup:
  "distinct (map fst (sessions cfg)) \<Longrightarrow> distinct (map fst (sessions (cleanupSessions now cfg)))"
  by (simp add: sessions_cleanup distinct_map_filter)

lemma tryAcquire_present:
  "Map_has sid (sessions cfg) \<Longrightarrow> tryAcquire now sid cfg = (False, cfg)"
  by (simp add: tryAcquire_def)

lemma cleanup_member_iff:
  assumes "distinct (map fst (sessions cfg))" and "(k, e) \<in> set (sessions cfg)"
  shows "((k, e) \<in> set (sessions (cleanupSessions now cfg)))
           = (\<not> now - lastActivity e > sessionTimeout cfg)"
proof -
  have uniq: "s = e" if "(k, s) \<in> set (sessions cfg)" for s
    using assms that distinct_unique [of "sessions cfg" k s e] by simp
  have ex_iff: "(\<exists>s. (k, s) \<in> set (sessions cfg) \<and> Q s) = Q e" for Q
    using assms(2) uniq by blast
  have "((k, e) \<in> set (sessions (cleanupSessions now cfg))) =
          (\<not> (\<exists>s. (k, s) \<in> set (sessions cfg) \<and>
                   now - lastActivity s > sessionTimeout cfg))"
    unfolding sessions_cleanup using assms(2) by simp
  then show ?thesis unfolding ex_iff .
qed

lemma apply_step_distinct:
  "distinct (map fst (sessions cfg)) \<Longrightarrow> distinct (map fst (sessions (apply_step st cfg)))"
  by (cases st)
     (simp_all add: tryAcquire_def release_def distinct_Map_set distinct_Map_delete
        distinct_cleanup)

lemma apply_step_timeout: "sessionTimeout (apply_step st cfg) = sessionTimeout cfg"
  by (cases st) (simp_all add: tryAcquire_def release_def cleanupSessions_def)

lemma reachable_distinct: "reachable env cfg \<Longrightarrow> distinct (map fst (sessions cfg))"
  by (induction rule: reachable.induct) (simp_all add: CONFIG_def apply_step_distinct)

lemma reachable_timeout: "reachable env cfg \<Longrightarrow> sessionTimeout cfg = 300000"
  by (induction rule: reachable.induct) (simp_all add: CONFIG_def apply_step_timeout)

section \<open>Signature verification: what is checked\<close>

text \<open>
  C9. The result of \<open>verifySignature\<close> does not depend on the request body: for every
  timestamp, signature and any two bodies the two results are equal. The \<open>body\<close>
  parameter is never read, so the signature covers the timestamp and the secret only.
\<close>

theorem verifySignature_ignores_body:
  "verifySignature hmac cfg timestamp sign b1 = verifySignature hmac cfg timestamp sign b2"
  by (simp add: verifySignature_def)


text \<open>
  C6. With no shared secret configured \<open>verifySignature\<close> returns true for every
  timestamp and signature, the empty ones included. With a secret configured it returns
  true exactly when the signature equals the base64 HMAC-SHA256, keyed by the secret, of
  the timestamp, a line feed and the secret; every other signature gives false.
\<close>

theorem verifySignature_spec:
  "(dingtalkSignKey cfg = [] \<longrightarrow> verifySignature hmac cfg timestamp sign body) \<and>
   (dingtalkSignKey cfg \<noteq> [] \<longrightarrow>
      verifySignature hmac cfg timestamp sign body =
        (sign = hmac (dingtalkSignKey cfg) (timestamp @ [CHR 0x0A] @ dingtalkSignKey cfg)))"
  by (simp add: verifySignature_def)

theorem verifySignature_spec_witness:
  "dingtalkSignKey (CONFIG example_env) = ''abc'' \<and>
   verifySignature example_hmac (CONFIG example_env) ''1000''
     (example_hmac ''abc'' (''1000'' @ [CHR 0x0A] @ ''abc'')) JNull \<and>
   \<not> verifySignature example_hmac (CONFIG example_env) ''1000'' ''forged'' JNull \<and>
   \<not> verifySignature example_hmac (CONFIG example_env) ''1000'' [] JNull \<and>
   dingtalkSignKey (CONFIG (example_env\<lparr>DINGTALK_SIGN_KEY := None\<rparr>)) = [] \<and>
   verifySignature example_hmac (CONFIG (example_env\<lparr>DINGTALK_SIGN_KEY := None\<rparr>)) [] [] JNull"
  using verifySignature_spec [where cfg = "CONFIG example_env" and hmac = example_hmac
          and timestamp = "''1000''" and body = JNull
          and sign = "example_hmac ''abc'' (''1000'' @ [CHR 0x0A] @ ''abc'')"]
        verifySignature_spec [where cfg = "CONFIG example_env" and hmac = example_hmac
          and timestamp = "''1000''" and body = JNull and sign = "''forged''"]
        verifySignature_spec [where cfg = "CONFIG example_env" and hmac = example_hmac
          and timestamp = "''1000''" and body = JNull and sign = "[]"]
        verifySignature_spec [where cfg = "CONFIG (example_env\<lparr>DINGTALK_SIGN_KEY := None\<rparr>)"
          and hmac = example_hmac and timestamp = "[]" and body = JNull and sign = "[]"]
  by (simp add: CONFIG_def example_env_def or_default_def example_hmac_def)

section \<open>The agent's reply\<close>

lemma trim_examples:
  "trim [] = []" "trim '' warn '' = ''warn''" "trim ''hello'' = ''hello''"
  "trim '' hi '' = ''hi''"
  by (simp_all add: trim_def trimStart_def trimEnd_def js_whitespace_def)

text \<open>
  C4. The reply of \<open>sendToMoltbot\<close> for each way the agent's process can end: standard
  output that is not empty once trimmed is the reply; with it empty and the error stream
  not empty, the trimmed error stream is the reply, as an ordinary reply; with both empty
  the fixed placeholder; a process killed at the time limit gives the fixed time-out
  text; any other failure gives the failure prefix followed by the error's message.
  Exactly one of the five cases applies to an outcome.
\<close>

theorem agent_reply_cases:
  "(\<forall>out err. r = Resolved out err \<and> trim out \<noteq> [] \<longrightarrow> agent_reply r = trim out) \<and>
   (\<forall>out err. r = Resolved out err \<and> trim out = [] \<and> err \<noteq> [] \<longrightarrow>
      agent_reply r = trim err) \<and>
   (\<forall>out err. r = Resolved out err \<and> trim out = [] \<and> err = [] \<longrightarrow>
      agent_reply r = msg_no_reply) \<and>
   (\<forall>err. r = Rejected True err \<longrightarrow> agent_reply r = msg_timeout) \<and>
   (\<forall>err. r = Rejected False err \<longrightarrow> agent_reply r = msg_failed_prefix @ err) \<and>
   length (filter (\<lambda>b. b)
     [\<exists>out err. r = Resolved out err \<and> trim out \<noteq> [],
      \<exists>out err. r = Resolved out err \<and> trim out = [] \<and> err \<noteq> [],
      \<exists>out err. r = Resolved out err \<and> trim out = [] \<and> err = [],
      \<exists>err. r = Rejected True err,
      \<exists>err. r = Rejected False err]) = 1 \<and>
   snd (sendToMoltbot exec cfg message cid) = agent_reply (exec (agent_command cfg message))"
proof (cases r)
  case (Resolved out err)
  then show ?thesis by (auto simp: agent_reply_def sendToMoltbot_def Let_def)
next
  case (Rejected killed err)
  then show ?thesis by (cases killed) (auto simp: agent_reply_def sendToMoltbot_def)
qed

theorem agent_reply_cases_witness:
  "agent_reply (Resolved ''hello'' ''noise'') = ''hello'' \<and>
   agent_reply (Resolved [] '' warn '') = ''warn'' \<and>
   agent_reply (Resolved [] []) = msg_no_reply \<and>
   agent_reply (Rejected True ''Command failed'') = msg_timeout \<and>
   agent_reply (Rejected False ''spawn ENOENT'') = msg_failed_prefix @ ''spawn ENOENT''"
  using agent_reply_cases [where r = "Resolved ''hello'' ''noise''"]
        agent_reply_cases [where r = "Resolved [] '' warn ''"]
        agent_reply_cases [where r = "Resolved [] []"]
        agent_reply_cases [where r = "Rejected True ''Command failed''"]
        agent_reply_cases [where r = "Rejected False ''spawn ENOENT''"]
  by (simp add: trim_examples)

section \<open>The registry: clean-up, release, duplicates\<close>

lemma acquired_entry:
  "\<not> Map_has sid (sessions cfg) \<Longrightarrow>
   (sid, \<lparr>lastActivity = now, processing = True\<rparr>) \<in> set (sessions (snd (tryAcquire now sid cfg)))"
  by (simp add: tryAcquire_def Map_set_def)

text \<open>
  C3. For every registry (a Map, so with one entry per key), time \<open>now\<close> and time-out,
  \<open>cleanupSessions\<close> removes an entry exactly when \<open>now - lastActivity\<close> is strictly
  greater than the time-out, and it adds nothing. An entry created at time \<open>now\<close> is
  never removed: its age is \<open>0\<close>, and the time-out is not negative. In the running
  service, whose time-out is the constant \<open>5 * 60 * 1000\<close>, a clean-up at the time of an
  acquisition keeps the entry just created.
\<close>

theorem cleanupSessions_removes_iff:
  "(distinct (map fst (sessions cfg)) \<and> (k, e) \<in> set (sessions cfg) \<longrightarrow>
      ((k, e) \<notin> set (sessions (cleanupSessions now cfg)))
        = (now - lastActivity e > sessionTimeout cfg) \<and>
      (0 \<le> sessionTimeout cfg \<and> lastActivity e = now \<longrightarrow>
         (k, e) \<in> set (sessions (cleanupSessions now cfg)))) \<and>
   set (sessions (cleanupSessions now cfg)) \<subseteq> set (sessions cfg) \<and>
   (reachable env cfg \<and> \<not> Map_has sid (sessions cfg) \<longrightarrow>
      Map_has sid (sessions (cleanupSessions now (snd (tryAcquire now sid cfg)))))"
proof -
  have sub: "set (sessions (cleanupSessions now cfg)) \<subseteq> set (sessions cfg)"
    unfolding sessions_cleanup by simp
  have iff: "((k, e) \<notin> set (sessions (cleanupSessions now cfg)))
               = (now - lastActivity e > sessionTimeout cfg)"
    if "distinct (map fst (sessions cfg))" and "(k, e) \<in> set (sessions cfg)"
    using cleanup_member_iff [OF that, of now] by simp
  have fresh: "Map_has sid (sessions (cleanupSessions now (snd (tryAcquire now sid cfg))))"
    if r: "reachable env cfg" and free: "\<not> Map_has sid (sessions cfg)"
  proof -
    let ?cfg1 = "snd (tryAcquire now sid cfg)"
    let ?e = "\<lparr>lastActivity = now, processing = True\<rparr>"
    have d: "distinct (map fst (sessions ?cfg1))"
      using reachable_distinct [OF r] by (simp add: tryAcquire_def distinct_Map_set)
    have t: "sessionTimeout ?cfg1 = 300000"
      using reachable_timeout [OF r] by (simp add: tryAcquire_def)
    have "(sid, ?e) \<in> set (sessions (cleanupSessions now ?cfg1))"
      using cleanup_member_iff [OF d acquired_entry [OF free], of now] t by simp
    then show ?thesis by (force simp: Map_has_def)
  qed
  from sub iff fresh show ?thesis by auto
qed

theorem cleanupSessions_removes_iff_witness:
  "distinct (map fst (sessions two_sessions)) \<and>
   (''c1:u1'', \<lparr>lastActivity = 0, processing = True\<rparr>) \<in> set (sessions two_sessions) \<and>
   (''c2:u2'', \<lparr>lastActivity = 300001, processing = True\<rparr>) \<in> set (sessions two_sessions) \<and>
   sessionTimeout two_sessions = 300000 \<and>
   (''c1:u1'', \<lparr>lastActivity = 0, processing = True\<rparr>)
     \<in> set (sessions (cleanupSessions 300000 two_sessions)) \<and>
   (''c1:u1'', \<lparr>lastActivity = 0, processing = True\<rparr>)
     \<notin> set (sessions (cleanupSessions 300001 two_sessions)) \<and>
   (''c2:u2'', \<lparr>lastActivity = 300001, processing = True\<rparr>)
     \<in> set (sessions (cleanupSessions 300001 two_sessions)) \<and>
   reachable example_env (CONFIG example_env) \<and>
   \<not> Map_has ''c1:u1'' (sessions (CONFIG example_env)) \<and>
   Map_has ''c1:u1''
     (sessions (cleanupSessions 1000 (snd (tryAcquire 1000 ''c1:u1'' (CONFIG example_env)))))"
proof -
  have d: "distinct (map fst (sessions two_sessions))"
    by (simp add: two_sessions_def)
  have old: "(''c1:u1'', \<lparr>lastActivity = 0, processing = True\<rparr>) \<in> set (sessions two_sessions)"
    by (simp add: two_sessions_def)
  have fresh: "(''c2:u2'', \<lparr>lastActivity = 300001, processing = True\<rparr>)
                 \<in> set (sessions two_sessions)"
    by (simp add: two_sessions_def)
  have t: "sessionTimeout two_sessions = 300000"
    by (simp add: two_sessions_def CONFIG_def)
  have r0: "reachable example_env (CONFIG example_env)"
    by (rule reachable.initial)
  have free: "\<not> Map_has ''c1:u1'' (sessions (CONFIG example_env))"
    by (simp add: CONFIG_def Map_has_def)
  show ?thesis
    using cleanupSessions_removes_iff [where cfg = two_sessions and k = "''c1:u1''"
            and e = "\<lparr>lastActivity = 0, processing = True\<rparr>" and now = 300000
            and env = example_env and sid = "''c9:u9''"]
          cleanupSessions_removes_iff [where cfg = two_sessions and k = "''c1:u1''"
            and e = "\<lparr>lastActivity = 0, processing = True\<rparr>" and now = 300001
            and env = example_env and sid = "''c9:u9''"]
          cleanupSessions_removes_iff [where cfg = two_sessions and k = "''c2:u2''"
            and e = "\<lparr>lastActivity = 300001, processing = True\<rparr>" and now = 300001
            and env = example_env and sid = "''c9:u9''"]
          cleanupSessions_removes_iff [where cfg = "CONFIG example_env" and k = "''c1:u1''"
            and e = "\<lparr>lastActivity = 0, processing = True\<rparr>" and now = 1000
            and env = example_env and sid = "''c1:u1''"]
          d old fresh t r0 free
    by simp
qed

lemma getSessionId_example:
  "getSessionId (chatId example_message) (userId example_message) = Inr ''c1:u1''"
  by (simp add: example_message_def getSessionId_def bindE_def)

lemma busy_has: "Map_has ''c1:u1'' (sessions busy_config)"
  by (simp add: busy_config_def Map_has_def)

lemma initial_free: "\<not> Map_has ''c1:u1'' (sessions (CONFIG example_env))"
  by (simp add: CONFIG_def Map_has_def)

text \<open>
  C2. The \<open>finally\<close> block removes the session entry whatever the two awaited calls did:
  for every result of the agent call and of the delivery, a thrown exception included,
  the registry after the acquired branch is the one before it with the key deleted, so
  the key is absent. A check-and-create that follows a release of the same key creates
  the entry. A whole dispatch that starts with the key free ends with the key free and
  the registry as it found it.
\<close>

theorem release_unconditional:
  "sessions (snd (acquired_branch agent deliver sid cfg)) = Map_delete sid (sessions cfg) \<and>
   \<not> Map_has sid (sessions (snd (acquired_branch agent deliver sid cfg))) \<and>
   fst (tryAcquire later sid (release sid cfg)) \<and>
   (getSessionId (chatId m) (userId m) = Inr sid \<and> \<not> Map_has sid (sessions cfg) \<longrightarrow>
      \<not> Map_has sid (sessions (snd (dispatch post exec now cfg m))) \<and>
      snd (dispatch post exec now cfg m) = cfg)"
  by (simp add: acquired_branch_def release_def tryAcquire_def dispatch_def Map_has_delete
        Map_delete_set_absent Let_def)

theorem release_unconditional_witness:
  "getSessionId (chatId example_message) (userId example_message) = Inr ''c1:u1'' \<and>
   \<not> Map_has ''c1:u1'' (sessions (CONFIG example_env)) \<and>
   \<not> Map_has ''c1:u1''
       (sessions (snd (dispatch (\<lambda>url text. PostFailed ''down'') (\<lambda>cmd. Rejected True ''killed'')
          2000 (CONFIG example_env) example_message))) \<and>
   \<not> Map_has ''c1:u1''
       (sessions (snd (acquired_branch (Inl (Thrown ''boom'')) (\<lambda>text. Inl (Thrown ''net''))
          ''c1:u1'' busy_config))) \<and>
   fst (tryAcquire 3000 ''c1:u1'' (release ''c1:u1'' busy_config))"
  using release_unconditional [where agent = "Inl (Thrown ''boom'')"
          and deliver = "\<lambda>text. Inl (Thrown ''net'')" and sid = "''c1:u1''"
          and cfg = busy_config and later = 3000 and m = example_message
          and post = "\<lambda>url text. PostFailed ''down''"
          and exec = "\<lambda>cmd. Rejected True ''killed''" and now = 2000]
        release_unconditional [where agent = "Inl (Thrown ''boom'')"
          and deliver = "\<lambda>text. Inl (Thrown ''net'')" and sid = "''c1:u1''"
          and cfg = "CONFIG example_env" and later = 3000 and m = example_message
          and post = "\<lambda>url text. PostFailed ''down''"
          and exec = "\<lambda>cmd. Rejected True ''killed''" and now = 2000]
        getSessionId_example initial_free
  by blast

text \<open>
  C10. When a message arrives for a key whose entry exists, the dispatch leaves the
  configuration, and with it the registry, exactly as it was: the entry is still there
  with the \<open>lastActivity\<close> it had, and a later clean-up treats the registry as if the
  duplicate had never arrived.
\<close>

theorem duplicate_leaves_registry:
  assumes "getSessionId (chatId m) (userId m) = Inr sid" and "Map_has sid (sessions cfg)"
  shows "snd (dispatch post exec now cfg m) = cfg \<and>
         Map_get sid (sessions (snd (dispatch post exec now cfg m)))
           = Map_get sid (sessions cfg) \<and>
         cleanupSessions t (snd (dispatch post exec now cfg m)) = cleanupSessions t cfg"
  using assms by (simp add: dispatch_def tryAcquire_present)

theorem duplicate_leaves_registry_witness:
  "getSessionId (chatId example_message) (userId example_message) = Inr ''c1:u1'' \<and>
   Map_has ''c1:u1'' (sessions busy_config) \<and>
   snd (dispatch (\<lambda>url text. PostOk) (\<lambda>cmd. Resolved ''done'' []) 2000 busy_config
          example_message)
     = busy_config \<and>
   Map_get ''c1:u1''
     (sessions (snd (dispatch (\<lambda>url text. PostOk) (\<lambda>cmd. Resolved ''done'' []) 2000
        busy_config example_message)))
     = Some \<lparr>lastActivity = 1000, processing = True\<rparr>"
  using duplicate_leaves_registry [OF getSessionId_example busy_has,
          of "\<lambda>url text. PostOk" "\<lambda>cmd. Resolved ''done'' []" 2000 0]
        getSessionId_example busy_has
  by (simp add: busy_config_def Map_get_def)


section \<open>Facts about the dispatch and the handler\<close>

lemma sendToDingtalk_effects:
  "fst (sendToDingtalk post url msg) = [] \<or> fst (sendToDingtalk post url msg) = [HttpPost url msg]"
  by (simp add: sendToDingtalk_def split: post_outcome.splits)

lemma sendToDingtalk_no_respond:
  "sendToDingtalk post url msg = (effs, ok) \<Longrightarrow> e \<in> set effs \<Longrightarrow> \<not> is_respond e"
  using sendToDingtalk_effects [of post url msg] by auto

lemma sendToDingtalk_no_respond_fst:
  "e \<in> set (fst (sendToDingtalk post url msg)) \<Longrightarrow> \<not> is_respond e"
  using sendToDingtalk_effects [of post url msg] by auto

lemma dispatch_duplicate:
  assumes "getSessionId (chatId m) (userId m) = Inr sid" and "Map_has sid (sessions cfg)"
  shows "dispatch post exec now cfg m =
           (fst (sendToDingtalk post (dingtalkWebhookUrl cfg) msg_wait), cfg)"
  using assms by (simp add: dispatch_def tryAcquire_present)

lemma dispatch_no_respond: "e \<in> set (fst (dispatch post exec now cfg m)) \<Longrightarrow> \<not> is_respond e"
  by (auto simp: dispatch_def acquired_branch_def sendToMoltbot_def tryAcquire_def Let_def
        split: sum.splits if_splits prod.splits
        dest: sendToDingtalk_no_respond sendToDingtalk_no_respond [OF sym]
              sendToDingtalk_no_respond_fst)

lemma filter_respond_dispatch: "filter is_respond (fst (dispatch post exec now cfg m)) = []"
  by (auto simp: filter_empty_conv dest: dispatch_no_respond)

text \<open>The synchronous part sends exactly one response, and hands a message on only
  after the acknowledgment.\<close>

lemma webhook_try_response:
  "webhook_try hmac cfg req = Inr (effs, mo) \<Longrightarrow>
     (\<exists>code field v. effs = [Respond code field v]) \<and>
     (mo \<noteq> None \<longrightarrow> effs = [Respond 200 ''status'' ''ok''])"
  by (auto simp: webhook_try_def bindE_def split: sum.splits if_splits option.splits)

lemma webhook_shape:
  "webhook hmac post exec now cfg req =
     (case webhook_try hmac cfg req of
        Inl err \<Rightarrow> ([Respond 500 ''error'' err_internal], cfg)
      | Inr (effs, None) \<Rightarrow> (effs, cfg)
      | Inr (effs, Some m) \<Rightarrow>
          (Respond 200 ''status'' ''ok'' # fst (dispatch post exec now cfg m),
           snd (dispatch post exec now cfg m)))"
  by (auto simp: webhook_def split: sum.splits option.splits prod.splits
        dest: webhook_try_response)

lemma webhook_try_passes:
  assumes "get_prop (req_body req) ''body'' = Inr body"
    and "\<forall>ts sg. h_timestamp req = Some ts \<and> h_sign req = Some sg \<and> ts \<noteq> [] \<and> sg \<noteq> []
            \<longrightarrow> verifySignature hmac cfg ts sg body"
    and "parseDingtalkMessage body = Inr (Some m)"
    and "dingtalkKeyword cfg \<noteq> [] \<longrightarrow> includes_str (content m) (dingtalkKeyword cfg)"
    and "toString (userId m) = Inr logged"
  shows "webhook_try hmac cfg req = Inr ([Respond 200 ''status'' ''ok''], Some m)"
  using assms by (auto simp: webhook_try_def bindE_def split: option.splits)

text \<open>
  What a dispatch does to the registry is the check-and-create followed, when it
  created the entry, by the release; so the handler takes a configuration the service
  can hold to one it can hold.
\<close>

lemma dispatch_as_steps:
  assumes "getSessionId (chatId m) (userId m) = Inr sid"
  shows "snd (dispatch post exec now cfg m) =
           (if Map_has sid (sessions cfg) then cfg
            else run_steps [Acquire now sid, Release sid] cfg)"
  using assms
  by (simp add: dispatch_def tryAcquire_def acquired_branch_def run_steps_def Let_def)

lemma dispatch_reachable:
  assumes "reachable env cfg"
  shows "reachable env (snd (dispatch post exec now cfg m))"
proof (cases "getSessionId (chatId m) (userId m)")
  case (Inl err)
  with assms show ?thesis by (simp add: dispatch_def)
next
  case (Inr sid)
  have "reachable env (apply_step (Release sid) (apply_step (Acquire now sid) cfg))"
    by (intro reachable.step assms)
  with assms show ?thesis
    by (simp add: dispatch_as_steps [OF Inr] run_steps_def)
qed

lemma webhook_reachable:
  "reachable env cfg \<Longrightarrow> reachable env (snd (webhook hmac post exec now cfg req))"
  by (auto simp: webhook_shape dispatch_reachable split: sum.splits option.splits)

lemma example_request_body: "get_prop (req_body example_request) ''body'' = Inr example_body"
  by (simp add: example_request_def)

lemma example_body_parses: "parseDingtalkMessage example_body = Inr (Some example_message)"
  by (simp add: parseDingtalkMessage_def bindE_def example_body_def example_message_def
        trim_def trimStart_def trimEnd_def js_whitespace_def)

lemma example_dispatch:
  "fst (dispatch (\<lambda>url msg. PostOk) (\<lambda>cmd. Resolved ''done'' []) 2000 (CONFIG example_env)
          example_message)
     = [Exec (''moltbot agent --message '' @ [CHR 0x22] @ ''Moltbot hi'' @ [CHR 0x22]
                @ '' --timeout 120''),
        HttpPost ''https://oapi.example/robot/send'' ''done'']"
  by (simp add: dispatch_def getSessionId_example tryAcquire_def initial_free
        acquired_branch_def sendToMoltbot_def sendToDingtalk_def agent_command_def
        agent_reply_def escape_quotes_def release_def Let_def)
     (simp add: CONFIG_def example_env_def or_default_def example_message_def
        trim_def trimStart_def trimEnd_def js_whitespace_def)

lemma example_handed_on:
  "webhook_try example_hmac busy_config example_request
     = Inr ([Respond 200 ''status'' ''ok''], Some example_message)"
proof (rule webhook_try_passes)
  show "get_prop (req_body example_request) ''body'' = Inr example_body"
    by (rule example_request_body)
  show "parseDingtalkMessage example_body = Inr (Some example_message)"
    by (rule example_body_parses)
  show "toString (userId example_message) = Inr ''u1''"
    by (simp add: example_message_def)
  show "dingtalkKeyword busy_config \<noteq> [] \<longrightarrow>
          includes_str (content example_message) (dingtalkKeyword busy_config)"
    by (simp add: example_message_def busy_config_def CONFIG_def example_env_def
          or_default_def)
  show "\<forall>ts sg. h_timestamp example_request = Some ts \<and> h_sign example_request = Some sg \<and>
          ts \<noteq> [] \<and> sg \<noteq> []
          \<longrightarrow> verifySignature example_hmac busy_config ts sg example_body"
    by (simp add: example_request_def)
qed

text \<open>An entry that is held stays through every step that is not its release or a
  clean-up that finds it too old.\<close>

lemma held_step:
  assumes "distinct (map fst (sessions cfg))"
    and "(sid, e) \<in> set (sessions cfg)"
    and "st \<noteq> Release sid"
    and "\<And>t. st = Sweep t \<Longrightarrow> t - lastActivity e \<le> sessionTimeout cfg"
  shows "(sid, e) \<in> set (sessions (apply_step st cfg))"
proof (cases st)
  case (Acquire now k)
  then show ?thesis using assms(2) by (auto simp: tryAcquire_def Map_set_def)
next
  case (Release k)
  then show ?thesis using assms(2,3) by (auto simp: release_def Map_delete_def)
next
  case (Sweep t)
  then show ?thesis using cleanup_member_iff [OF assms(1,2), of t] assms(4) by auto
qed

lemma held_steps:
  assumes "distinct (map fst (sessions cfg))"
    and "(sid, e) \<in> set (sessions cfg)"
    and "\<forall>st \<in> set steps. st \<noteq> Release sid \<and>
           (\<forall>t. st = Sweep t \<longrightarrow> t - lastActivity e \<le> sessionTimeout cfg)"
  shows "(sid, e) \<in> set (sessions (run_steps steps cfg))"
  using assms
proof (induction steps arbitrary: cfg)
  case Nil
  then show ?case by (simp add: run_steps_def)
next
  case (Cons st steps)
  have "(sid, e) \<in> set (sessions (apply_step st cfg))"
    using Cons.prems by (intro held_step) auto
  moreover have "distinct (map fst (sessions (apply_step st cfg)))"
    using Cons.prems(1) by (rule apply_step_distinct)
  ultimately have "(sid, e) \<in> set (sessions (run_steps steps (apply_step st cfg)))"
    using Cons.prems(3) by (intro Cons.IH) (auto simp: apply_step_timeout)
  then show ?case by (simp add: run_steps_def)
qed


section \<open>One dispatch per session\<close>

text \<open>
  C1, as the code has it. At any time the registry holds at most one entry for a session
  key. While an entry exists, a new message with the same key starts no second run of the
  agent: its dispatch does nothing but send the notice to wait (nothing at all when no
  webhook URL is configured) and starts no process, so the handler's effects are the
  acknowledgment and that notice. Two check-and-create attempts for one key, the second
  following the first at once, never both succeed. Exactly one of two attempts succeeds,
  the first, when the key is free before the first attempt and no step in between is the
  release of that key or a clean-up that finds the entry older than the time-out.
\<close>

theorem one_session_per_key:
  "(reachable env cfg \<longrightarrow> length (filter (\<lambda>(k', v). k' = k) (sessions cfg)) \<le> 1) \<and>
   (getSessionId (chatId m) (userId m) = Inr sid \<and> Map_has sid (sessions cfg) \<longrightarrow>
      dispatch post exec now cfg m =
        (fst (sendToDingtalk post (dingtalkWebhookUrl cfg) msg_wait), cfg) \<and>
      set (fst (dispatch post exec now cfg m)) \<subseteq> {HttpPost (dingtalkWebhookUrl cfg) msg_wait} \<and>
      filter is_exec (fst (dispatch post exec now cfg m)) = []) \<and>
   (webhook_try hmac cfg req = Inr (effs, Some m) \<and>
    getSessionId (chatId m) (userId m) = Inr sid \<and> Map_has sid (sessions cfg) \<longrightarrow>
      webhook hmac post exec now cfg req =
        (Respond 200 ''status'' ''ok''
           # fst (sendToDingtalk post (dingtalkWebhookUrl cfg) msg_wait), cfg)) \<and>
   (\<not> Map_has sid (sessions cfg) \<longrightarrow>
      fst (tryAcquire n1 sid cfg) \<and>
      \<not> fst (tryAcquire n2 sid (snd (tryAcquire n1 sid cfg)))) \<and>
   \<not> (fst (tryAcquire n1 sid cfg) \<and> fst (tryAcquire n2 sid (snd (tryAcquire n1 sid cfg)))) \<and>
   (reachable env cfg \<and> \<not> Map_has sid (sessions cfg) \<and>
    (\<forall>st \<in> set steps. st \<noteq> Release sid \<and>
        (\<forall>t. st = Sweep t \<longrightarrow> t - n1 \<le> sessionTimeout cfg)) \<longrightarrow>
      fst (tryAcquire n1 sid cfg) \<and>
      \<not> fst (tryAcquire n2 sid (run_steps steps (snd (tryAcquire n1 sid cfg)))))"
proof -
  have one: "length (filter (\<lambda>(k', v). k' = k) (sessions cfg)) \<le> 1" if "reachable env cfg"
    using that by (intro distinct_count reachable_distinct)
  have dup: "dispatch post exec now cfg m =
        (fst (sendToDingtalk post (dingtalkWebhookUrl cfg) msg_wait), cfg) \<and>
      set (fst (dispatch post exec now cfg m)) \<subseteq> {HttpPost (dingtalkWebhookUrl cfg) msg_wait} \<and>
      filter is_exec (fst (dispatch post exec now cfg m)) = []"
    if "getSessionId (chatId m) (userId m) = Inr sid" and "Map_has sid (sessions cfg)"
    using sendToDingtalk_effects [of post "dingtalkWebhookUrl cfg" msg_wait]
    by (auto simp: dispatch_duplicate [OF that])
  have handler: "webhook hmac post exec now cfg req =
        (Respond 200 ''status'' ''ok''
           # fst (sendToDingtalk post (dingtalkWebhookUrl cfg) msg_wait), cfg)"
    if "webhook_try hmac cfg req = Inr (effs, Some m)"
      and "getSessionId (chatId m) (userId m) = Inr sid" and "Map_has sid (sessions cfg)"
    using that by (simp add: webhook_shape dispatch_duplicate)
  have two: "fst (tryAcquire n1 sid cfg) \<and>
      \<not> fst (tryAcquire n2 sid (snd (tryAcquire n1 sid cfg)))"
    if "\<not> Map_has sid (sessions cfg)"
    using that by (simp add: tryAcquire_def Map_has_set)
  have never_both:
    "\<not> (fst (tryAcquire n1 sid cfg) \<and> fst (tryAcquire n2 sid (snd (tryAcquire n1 sid cfg))))"
    by (simp add: tryAcquire_def Map_has_set)
  have between: "fst (tryAcquire n1 sid cfg) \<and>
      \<not> fst (tryAcquire n2 sid (run_steps steps (snd (tryAcquire n1 sid cfg))))"
    if r: "reachable env cfg" and free: "\<not> Map_has sid (sessions cfg)"
      and steps: "\<forall>st \<in> set steps. st \<noteq> Release sid \<and>
        (\<forall>t. st = Sweep t \<longrightarrow> t - n1 \<le> sessionTimeout cfg)"
  proof -
    let ?cfg1 = "snd (tryAcquire n1 sid cfg)"
    let ?e = "\<lparr>lastActivity = n1, processing = True\<rparr>"
    have d: "distinct (map fst (sessions ?cfg1))"
      using reachable_distinct [OF r] by (simp add: tryAcquire_def distinct_Map_set)
    have t: "sessionTimeout ?cfg1 = sessionTimeout cfg"
      by (simp add: tryAcquire_def)
    have "(sid, ?e) \<in> set (sessions (run_steps steps ?cfg1))"
      using steps by (intro held_steps d acquired_entry free) (simp add: t)
    then have "Map_has sid (sessions (run_steps steps ?cfg1))"
      by (force simp: Map_has_def)
    then show ?thesis using free by (simp add: tryAcquire_def)
  qed
  from one dup handler two never_both between show ?thesis by blast
qed

theorem one_session_per_key_witness:
  "reachable example_env (apply_step (Acquire 1000 ''c1:u1'') (CONFIG example_env)) \<and>
   length (filter (\<lambda>(k', v). k' = ''c1:u1'')
     (sessions (apply_step (Acquire 1000 ''c1:u1'') (CONFIG example_env)))) \<le> 1 \<and>
   getSessionId (chatId example_message) (userId example_message) = Inr ''c1:u1'' \<and>
   Map_has ''c1:u1'' (sessions busy_config) \<and>
   dispatch (\<lambda>url msg. PostOk) (\<lambda>cmd. Resolved ''done'' []) 2000 busy_config example_message
     = ([HttpPost ''https://oapi.example/robot/send'' msg_wait], busy_config) \<and>
   webhook_try example_hmac busy_config example_request
     = Inr ([Respond 200 ''status'' ''ok''], Some example_message) \<and>
   webhook example_hmac (\<lambda>url msg. PostOk) (\<lambda>cmd. Resolved ''done'' []) 2000 busy_config
       example_request
     = ([Respond 200 ''status'' ''ok'',
         HttpPost ''https://oapi.example/robot/send'' msg_wait], busy_config) \<and>
   \<not> Map_has ''c1:u1'' (sessions (CONFIG example_env)) \<and>
   fst (tryAcquire 1000 ''c1:u1'' (CONFIG example_env)) \<and>
   \<not> fst (tryAcquire 5000 ''c1:u1'' (snd (tryAcquire 1000 ''c1:u1'' (CONFIG example_env)))) \<and>
   \<not> fst (tryAcquire 5000 ''c1:u1''
        (run_steps [Acquire 1500 ''c2:u2'', Sweep 300000, Release ''c2:u2'']
           (snd (tryAcquire 1000 ''c1:u1'' (CONFIG example_env)))))"
proof -
  have r0: "reachable example_env (CONFIG example_env)"
    by (rule reachable.initial)
  have r1: "reachable example_env (apply_step (Acquire 1000 ''c1:u1'') (CONFIG example_env))"
    by (rule reachable.step) (rule reachable.initial)
  have steps_ok:
    "\<forall>st \<in> set [Acquire 1500 ''c2:u2'', Sweep 300000, Release ''c2:u2''].
       st \<noteq> Release ''c1:u1'' \<and>
       (\<forall>t. st = Sweep t \<longrightarrow> t - 1000 \<le> sessionTimeout (CONFIG example_env))"
    by (simp add: CONFIG_def)
  have notice:
    "fst (sendToDingtalk (\<lambda>url msg. PostOk) (dingtalkWebhookUrl busy_config) msg_wait)
       = [HttpPost ''https://oapi.example/robot/send'' msg_wait]"
    by (simp add: sendToDingtalk_def busy_config_def CONFIG_def example_env_def or_default_def)
  show ?thesis
    using one_session_per_key [where env = example_env
            and cfg = "apply_step (Acquire 1000 ''c1:u1'') (CONFIG example_env)"
            and k = "''c1:u1''" and m = example_message and sid = "''c1:u1''"
            and hmac = example_hmac and req = example_request
            and effs = "[Respond 200 ''status'' ''ok'']"
            and post = "\<lambda>url msg. PostOk" and exec = "\<lambda>cmd. Resolved ''done'' []"
            and now = 2000 and ?n1.0 = 1000 and ?n2.0 = 5000
            and steps = "[Acquire 1500 ''c2:u2'', Sweep 300000, Release ''c2:u2'']"]
          one_session_per_key [where env = example_env and cfg = busy_config
            and k = "''c1:u1''" and m = example_message and sid = "''c1:u1''"
            and hmac = example_hmac and req = example_request
            and effs = "[Respond 200 ''status'' ''ok'']"
            and post = "\<lambda>url msg. PostOk" and exec = "\<lambda>cmd. Resolved ''done'' []"
            and now = 2000 and ?n1.0 = 1000 and ?n2.0 = 5000
            and steps = "[Acquire 1500 ''c2:u2'', Sweep 300000, Release ''c2:u2'']"]
          one_session_per_key [where env = example_env and cfg = "CONFIG example_env"
            and k = "''c1:u1''" and m = example_message and sid = "''c1:u1''"
            and hmac = example_hmac and req = example_request
            and effs = "[Respond 200 ''status'' ''ok'']"
            and post = "\<lambda>url msg. PostOk" and exec = "\<lambda>cmd. Resolved ''done'' []"
            and now = 2000 and ?n1.0 = 1000 and ?n2.0 = 5000
            and steps = "[Acquire 1500 ''c2:u2'', Sweep 300000, Release ''c2:u2'']"]
          r0 r1 steps_ok notice getSessionId_example busy_has initial_free
          example_handed_on
    by metis
qed


text \<open>
  Without those two provisos the count is not one. The periodic clean-up deletes an entry
  by its age alone, in flight or not: an entry acquired at time \<open>0\<close> is gone after the
  clean-up at \<open>300001\<close>, and a second attempt at \<open>300002\<close> succeeds as the first did,
  with no release in between. And on a key that is held, both attempts fail.
\<close>

theorem both_attempts_succeed_counterexample:
  "\<not> Map_has ''c1:u1'' (sessions (CONFIG example_env)) \<and>
   fst (tryAcquire 0 ''c1:u1'' (CONFIG example_env)) \<and>
   fst (tryAcquire 300002 ''c1:u1''
          (run_steps [Sweep 300001] (snd (tryAcquire 0 ''c1:u1'' (CONFIG example_env))))) \<and>
   Map_has ''c1:u1'' (sessions busy_config) \<and>
   \<not> fst (tryAcquire 2000 ''c1:u1'' busy_config) \<and>
   \<not> fst (tryAcquire 2001 ''c1:u1'' (snd (tryAcquire 2000 ''c1:u1'' busy_config)))"
  by (simp add: tryAcquire_def run_steps_def cleanupSessions_def CONFIG_def busy_config_def
        Map_has_def Map_set_def Map_delete_def)

section \<open>The acknowledgment comes first\<close>

text \<open>
  What holds for every request: the handler sends exactly one response, as its first
  effect, and that response is the same whatever the agent and the delivery do, whenever
  they do it and whatever the registry holds. Every effect of the asynchronous function
  comes after it: when anything follows the response, the response is the acknowledgment
  \<open>{status: 'ok'}\<close>. For a request that passes the signature check, the parser and the
  keyword filter and whose sender renders in the log line, the handler's effects are the
  acknowledgment followed by the effects of the dispatch.
\<close>

theorem acknowledged_before_dispatch:
  "(\<exists>r. is_respond r \<and>
        fst (webhook hmac post exec now cfg req) = r # tl (fst (webhook hmac post exec now cfg req)) \<and>
        fst (webhook hmac post' exec' now' (cfg\<lparr>sessions := registry'\<rparr>) req)
          = r # tl (fst (webhook hmac post' exec' now' (cfg\<lparr>sessions := registry'\<rparr>) req)) \<and>
        filter is_respond (tl (fst (webhook hmac post exec now cfg req))) = []) \<and>
   (tl (fst (webhook hmac post exec now cfg req)) \<noteq> [] \<longrightarrow>
      hd (fst (webhook hmac post exec now cfg req)) = Respond 200 ''status'' ''ok'') \<and>
   (get_prop (req_body req) ''body'' = Inr body \<and>
    (\<forall>ts sg. h_timestamp req = Some ts \<and> h_sign req = Some sg \<and> ts \<noteq> [] \<and> sg \<noteq> []
        \<longrightarrow> verifySignature hmac cfg ts sg body) \<and>
    parseDingtalkMessage body = Inr (Some m) \<and>
    (dingtalkKeyword cfg \<noteq> [] \<longrightarrow> includes_str (content m) (dingtalkKeyword cfg)) \<and>
    toString (userId m) = Inr logged \<longrightarrow>
      fst (webhook hmac post exec now cfg req)
        = Respond 200 ''status'' ''ok'' # fst (dispatch post exec now cfg m) \<and>
      snd (webhook hmac post exec now cfg req) = snd (dispatch post exec now cfg m))"
proof -
  have same_try: "webhook_try hmac (cfg\<lparr>sessions := registry'\<rparr>) req = webhook_try hmac cfg req"
    by (simp add: webhook_try_def verifySignature_def bindE_def
          split: sum.splits option.splits)
  show ?thesis
  proof (cases "webhook_try hmac cfg req")
    case (Inl err)
    then show ?thesis
      by (auto simp: webhook_shape same_try dest: webhook_try_passes)
  next
    case (Inr res)
    obtain effs mo where res: "res = (effs, mo)" by (cases res)
    from Inr res webhook_try_response [of hmac cfg req effs mo]
    obtain code field v where effs: "effs = [Respond code field v]"
      and ok: "mo \<noteq> None \<Longrightarrow> effs = [Respond 200 ''status'' ''ok'']"
      by auto
    show ?thesis
    proof (cases mo)
      case None
      with Inr res effs show ?thesis
        by (auto simp: webhook_shape same_try dest: webhook_try_passes)
    next
      case (Some m')
      with Inr res ok show ?thesis
        by (auto simp: webhook_shape same_try filter_respond_dispatch dest: webhook_try_passes)
    qed
  qed
qed

theorem acknowledged_before_dispatch_witness:
  "get_prop (req_body example_request) ''body'' = Inr example_body \<and>
   h_timestamp example_request = None \<and>
   parseDingtalkMessage example_body = Inr (Some example_message) \<and>
   includes_str (content example_message) (dingtalkKeyword (CONFIG example_env)) \<and>
   toString (userId example_message) = Inr ''u1'' \<and>
   fst (webhook example_hmac (\<lambda>url msg. PostOk) (\<lambda>cmd. Resolved ''done'' []) 2000
          (CONFIG example_env) example_request)
     = [Respond 200 ''status'' ''ok'',
        Exec (''moltbot agent --message '' @ [CHR 0x22] @ ''Moltbot hi'' @ [CHR 0x22]
                @ '' --timeout 120''),
        HttpPost ''https://oapi.example/robot/send'' ''done'']"
proof -
  have no_header: "h_timestamp example_request = None"
    by (simp add: example_request_def)
  have verified:
    "\<forall>ts sg. h_timestamp example_request = Some ts \<and> h_sign example_request = Some sg \<and>
        ts \<noteq> [] \<and> sg \<noteq> []
        \<longrightarrow> verifySignature example_hmac (CONFIG example_env) ts sg example_body"
    by (simp add: no_header)
  have keyword: "includes_str (content example_message) (dingtalkKeyword (CONFIG example_env))"
    by (simp add: example_message_def CONFIG_def example_env_def or_default_def)
  have logged: "toString (userId example_message) = Inr ''u1''"
    by (simp add: example_message_def)
  show ?thesis
    using acknowledged_before_dispatch [where hmac = example_hmac
            and post = "\<lambda>url msg. PostOk" and exec = "\<lambda>cmd. Resolved ''done'' []"
            and now = 2000 and cfg = "CONFIG example_env" and req = example_request
            and post' = "\<lambda>url msg. PostOk" and exec' = "\<lambda>cmd. Resolved ''done'' []"
            and now' = 2000 and registry' = "[]" and body = example_body
            and m = example_message and logged = "''u1''"]
          example_request_body no_header verified example_body_parses keyword logged
          example_dispatch
    by simp
qed


section \<open>Parsing: what a payload that is no object gives\<close>



section \<open>Quoting of the message on the command line\<close>

text \<open>
  C7. The escaping of line 98 puts a backslash before every double quote and leaves
  backslashes alone. For the message \<open>attack_message\<close>, which holds the keyword and the
  two characters backslash and double quote, the command string is the one of line 98,
  and the shell ends the quoted argument inside the message: what follows the closing
  quote is not the \<open> --timeout 120\<close> of the source but text of the sender. The escaping
  does not keep every message inside its argument.
\<close>

theorem escaping_breaks_out:
  "trim attack_message = attack_message \<and>
   includes_str attack_message ''Moltbot'' \<and>
   agent_command cfg attack_message =
     moltbotPath cfg @ '' agent --message '' @ [CHR 0x22] @ escape_quotes attack_message
       @ [CHR 0x22] @ '' --timeout 120'' \<and>
   sh_dquote_rest (escape_quotes attack_message @ [CHR 0x22] @ '' --timeout 120'') =
     Some (''; touch /tmp/pwned; #'' @ [CHR 0x22] @ '' --timeout 120'')"
  by (simp add: agent_command_def attack_message_def escape_quotes_def
        trim_def trimStart_def trimEnd_def js_whitespace_def)

text \<open>A message without a backslash does stay inside its argument, as far as the quoting
  goes.\<close>

lemma escape_quotes_safe:
  "CHR 0x5C \<notin> set message \<Longrightarrow>
   sh_dquote_rest (escape_quotes message @ [CHR 0x22] @ rest) = Some rest"
  by (induction message) (auto simp: escape_quotes_def)


end
